theory Spec2Isabelle
  imports Complex_Main
begin

section \<open>The background controller of the automation extension (background.js)\<close>

text \<open>
  The service worker of the extension is one event loop over module-level variables. It
  is embedded as a record of these variables together with the parts of the browser the
  code writes to (the named alarms, the two storage keys, the messages sent to the page
  agent and to the popup), and one function per source function that takes the record
  and returns it updated.

  Every callback (a popup command, a message of the page agent, an alarm, a tab signal)
  is one step. The values a callback obtains from outside (\<open>Date.now()\<close>,
  \<open>Math.random()\<close>, whether a storage or messaging promise resolves, which tab the tab
  query finds) are inputs of the step. In a step a callback that awaits runs to its end:
  no other callback runs while it waits. \<open>startAutomation\<close> is given in two parts as
  well, split at its longest wait, so that a run in which another callback is handled
  during that wait can be written down.
\<close>

subsection \<open>Numbers\<close>

text \<open>
  A JavaScript number is modelled as a real number, one of the two infinities, or NaN.
  A result of arithmetic whose magnitude reaches \<open>2^1024 - 2^970\<close> (half a unit in the
  last place above the largest double) overflows to the infinity of its sign, as a double
  does. Rounding below that magnitude, and the sign of zero, are outside the model. The
  divisions of the source are by the literals 1000 and 60000 only.
\<close>

datatype jsnum = Num real | PosInf | NegInf | NaN

definition js_overflow :: real where
  "js_overflow = 2 ^ 1024 - 2 ^ 970"

definition js_norm :: "real \<Rightarrow> jsnum" where
  "js_norm x =
     (if js_overflow \<le> x then PosInf else if x \<le> - js_overflow then NegInf else Num x)"

text \<open>\<open>Math.ceil\<close> and \<open>Math.floor\<close>.\<close>

fun js_ceil :: "jsnum \<Rightarrow> jsnum" where
  "js_ceil (Num x) = Num (of_int \<lceil>x\<rceil>)"
| "js_ceil v = v"

fun js_floor :: "jsnum \<Rightarrow> jsnum" where
  "js_floor (Num x) = Num (of_int \<lfloor>x\<rfloor>)"
| "js_floor v = v"

fun js_neg :: "jsnum \<Rightarrow> jsnum" where
  "js_neg (Num x) = Num (- x)"
| "js_neg PosInf = NegInf"
| "js_neg NegInf = PosInf"
| "js_neg NaN = NaN"

text \<open>\<open>a + b\<close>: infinities of opposite sign give NaN.\<close>

fun js_plus :: "jsnum \<Rightarrow> jsnum \<Rightarrow> jsnum" where
  "js_plus (Num x) (Num y) = js_norm (x + y)"
| "js_plus NaN _ = NaN"
| "js_plus _ NaN = NaN"
| "js_plus PosInf NegInf = NaN"
| "js_plus NegInf PosInf = NaN"
| "js_plus PosInf _ = PosInf"
| "js_plus _ PosInf = PosInf"
| "js_plus NegInf _ = NegInf"
| "js_plus _ NegInf = NegInf"

definition js_minus :: "jsnum \<Rightarrow> jsnum \<Rightarrow> jsnum" where
  "js_minus a b = js_plus a (js_neg b)"

text \<open>\<open>a * b\<close>: an infinity times zero gives NaN.\<close>

fun js_times :: "jsnum \<Rightarrow> jsnum \<Rightarrow> jsnum" where
  "js_times (Num x) (Num y) = js_norm (x * y)"
| "js_times NaN _ = NaN"
| "js_times _ NaN = NaN"
| "js_times PosInf (Num y) = (if y = 0 then NaN else if 0 < y then PosInf else NegInf)"
| "js_times NegInf (Num y) = (if y = 0 then NaN else if 0 < y then NegInf else PosInf)"
| "js_times (Num x) PosInf = (if x = 0 then NaN else if 0 < x then PosInf else NegInf)"
| "js_times (Num x) NegInf = (if x = 0 then NaN else if 0 < x then NegInf else PosInf)"
| "js_times PosInf PosInf = PosInf"
| "js_times NegInf NegInf = PosInf"
| "js_times PosInf NegInf = NegInf"
| "js_times NegInf PosInf = NegInf"

text \<open>Division by a literal \<open>k\<close> that is at least 1.\<close>

fun js_divide :: "jsnum \<Rightarrow> real \<Rightarrow> jsnum" where
  "js_divide (Num x) k = Num (x / k)"
| "js_divide v k = v"

text \<open>The comparison \<open>a >= b\<close>: false as soon as one side is NaN.\<close>

fun js_ge :: "jsnum \<Rightarrow> jsnum \<Rightarrow> bool" where
  "js_ge (Num x) (Num y) = (y \<le> x)"
| "js_ge NaN _ = False"
| "js_ge _ NaN = False"
| "js_ge PosInf _ = True"
| "js_ge _ NegInf = True"
| "js_ge _ _ = False"

fun js_negative :: "jsnum \<Rightarrow> bool" where
  "js_negative (Num x) = (x < 0)"
| "js_negative NegInf = True"
| "js_negative _ = False"

text \<open>
  A settings field holds the number that a numeric use of the stored value gives:
  a field that is absent reads as \<open>undefined\<close>, which is NaN in \<open>Math.ceil\<close>,
  \<open>Math.floor\<close> and \<open>>=\<close>; a value that is not a number (a non-numeric string, an
  object) is NaN there as well.
\<close>

fun to_number :: "jsnum option \<Rightarrow> jsnum" where
  "to_number None = NaN"
| "to_number (Some v) = v"

text \<open>\<open>getRandomInt(min, max)\<close>; the third argument is the value of \<open>Math.random()\<close>.\<close>

definition getRandomInt :: "jsnum \<Rightarrow> jsnum \<Rightarrow> real \<Rightarrow> jsnum" where
  "getRandomInt mn mx rnd =
     (let mn' = js_ceil mn;
          mx' = js_floor mx
      in js_plus (js_floor (js_times (Num rnd) (js_plus (js_minus mx' mn') (Num 1)))) mn')"

subsection \<open>Data\<close>

datatype action_type = Follow | Unfollow

datatype alarm_name = PERFORM_ACTION | BATCH_PAUSE | DAILY_RESET

datatype alarm_info = DelayInMinutes jsnum | PeriodInMinutes jsnum

text \<open>The settings object; a field that the object does not have is \<open>None\<close>.\<close>

record settings_obj =
  intervalMin :: "jsnum option"
  intervalMax :: "jsnum option"
  actionsPerBatch :: "jsnum option"
  pauseBetweenBatchesMin :: "jsnum option"
  pauseBetweenBatchesMax :: "jsnum option"
  dailyLimit :: "jsnum option"
  unfollowNonFollowers :: "bool option"
  unfollowPrivate :: "bool option"

definition DEFAULT_SETTINGS :: settings_obj where
  "DEFAULT_SETTINGS =
     \<lparr> intervalMin = Some (Num 5), intervalMax = Some (Num 10),
       actionsPerBatch = Some (Num 10),
       pauseBetweenBatchesMin = Some (Num 300), pauseBetweenBatchesMax = Some (Num 600),
       dailyLimit = Some (Num 100),
       unfollowNonFollowers = Some False, unfollowPrivate = Some False \<rparr>"

text \<open>The empty object \<open>{}\<close>.\<close>

definition empty_settings :: settings_obj where
  "empty_settings =
     \<lparr> intervalMin = None, intervalMax = None, actionsPerBatch = None,
       pauseBetweenBatchesMin = None, pauseBetweenBatchesMax = None, dailyLimit = None,
       unfollowNonFollowers = None, unfollowPrivate = None \<rparr>"

fun over :: "'a option \<Rightarrow> 'a option \<Rightarrow> 'a option" where
  "over old None = old"
| "over old (Some v) = Some v"

text \<open>The object spread \<open>{ ...a, ...b }\<close>.\<close>

definition spread :: "settings_obj \<Rightarrow> settings_obj \<Rightarrow> settings_obj" where
  "spread a b =
     \<lparr> intervalMin = over (intervalMin a) (intervalMin b),
       intervalMax = over (intervalMax a) (intervalMax b),
       actionsPerBatch = over (actionsPerBatch a) (actionsPerBatch b),
       pauseBetweenBatchesMin = over (pauseBetweenBatchesMin a) (pauseBetweenBatchesMin b),
       pauseBetweenBatchesMax = over (pauseBetweenBatchesMax a) (pauseBetweenBatchesMax b),
       dailyLimit = over (dailyLimit a) (dailyLimit b),
       unfollowNonFollowers = over (unfollowNonFollowers a) (unfollowNonFollowers b),
       unfollowPrivate = over (unfollowPrivate a) (unfollowPrivate b) \<rparr>"

text \<open>
  The object under the storage key \<open>instagramAutomationState\<close>. Every call of
  \<open>saveState\<close> in the source passes both fields, so the merge it does with the stored
  object gives the object passed.
\<close>

record run_state =
  rs_processedToday :: int
  rs_lastActionTimestamp :: int

datatype status_text =
    Idle
  | PausedForBatchBreak int jsnum
  | RunningText int jsnum int jsnum

record status =
  st_isActive :: bool
  st_actionType :: "action_type option"
  st_currentTabId :: "nat option"
  st_settings :: settings_obj
  st_processedToday :: int
  st_sessionProcessedCount :: int
  st_currentTargetCount :: nat
  st_currentIndex :: nat
  st_isPausedForBatch :: bool
  st_statusText :: status_text

datatype tab_command = StartAutomationCmd "action_type option" | StopAutomationCmd | PerformActionCmd

datatype reply = Acknowledged | SettingsReply settings_obj | StatusReply status | UnknownCommand

text \<open>
  The module-level variables, then what the code has written to the browser: the pending
  named alarms, the two storage keys, the commands sent to tabs, the status updates
  pushed to the popup and the responses given to popup commands.
\<close>

record world =
  isActive :: bool
  currentTabId :: "nat option"
  actionType :: "action_type option"
  settings :: settings_obj
  processedToday :: int
  sessionProcessedCount :: int
  currentTargets :: "string list"
  currentIndex :: nat
  isPausedForBatch :: bool
  alarms :: "alarm_name \<Rightarrow> alarm_info option"
  stored_settings :: "settings_obj option"
  stored_state :: "run_state option"
  to_tab :: "(nat \<times> tab_command) list"
  published :: "status list"
  replies :: "reply list"

datatype inject_result = Injected | InjectFailed | InjectTimeout

text \<open>
  What one callback obtains from outside the controller: \<open>Date.now()\<close>;
  \<open>Math.random()\<close>; whether \<open>chrome.storage.local.get\<close> resolves in
  \<open>loadSettingsAndState\<close>; whether the storage calls of \<open>saveSettings\<close> and
  \<open>saveState\<close> resolve; the tab id that \<open>findInstagramTab\<close> returns; how
  \<open>injectContentScript\<close> ends; whether \<open>chrome.tabs.get\<close> gives a tab whose URL
  contains \<open>instagram.com\<close>; whether the \<open>chrome.tabs.sendMessage\<close> promise that the
  callback waits for resolves.
\<close>

record env =
  now :: int
  rnd :: real
  load_ok :: bool
  save_ok :: bool
  found_tab :: "nat option"
  inject :: inject_result
  tab_valid :: bool
  send_ok :: bool

text \<open>
  \<open>request.status\<close> of a message of the content script, with \<open>request.type\<close> where
  the listener reads it, and the callbacks of the worker.
\<close>

datatype agent_status =
    Ready | RunningStatus | Stopped | ActionCompleted | ActionFailed "string option"
  | ActionBlocked | UserSkipped | TargetsFound | Completed | ErrorStatus "string option"
  | OtherStatus

datatype event =
    PopupStart action_type
  | PopupStop
  | PopupGetSettings
  | PopupSaveSettings settings_obj
  | PopupGetStatus
  | PopupUnknown
  | Agent nat agent_status
  | Alarm alarm_name
  | TabUpdated nat "bool option"
  | TabRemoved nat

subsection \<open>Helper functions of the source\<close>

definition getStatus :: "world \<Rightarrow> status" where
  "getStatus w =
     \<lparr> st_isActive = isActive w,
       st_actionType = actionType w,
       st_currentTabId = currentTabId w,
       st_settings = settings w,
       st_processedToday = processedToday w,
       st_sessionProcessedCount = sessionProcessedCount w,
       st_currentTargetCount = length (currentTargets w),
       st_currentIndex = currentIndex w,
       st_isPausedForBatch = isPausedForBatch w,
       st_statusText =
         (if isActive w
          then (if isPausedForBatch w
                then PausedForBatchBreak (sessionProcessedCount w)
                       (to_number (actionsPerBatch (settings w)))
                else RunningText (sessionProcessedCount w)
                       (to_number (actionsPerBatch (settings w)))
                       (processedToday w) (to_number (dailyLimit (settings w))))
          else Idle) \<rparr>"

definition sendStatusToPopup :: "world \<Rightarrow> world" where
  "sendStatusToPopup w = w\<lparr>published := published w @ [getStatus w]\<rparr>"

definition send_tab :: "nat \<Rightarrow> tab_command \<Rightarrow> world \<Rightarrow> world" where
  "send_tab t c w = w\<lparr>to_tab := to_tab w @ [(t, c)]\<rparr>"

definition respond :: "reply \<Rightarrow> world \<Rightarrow> world" where
  "respond r w = w\<lparr>replies := replies w @ [r]\<rparr>"

definition saveSettings :: "env \<Rightarrow> settings_obj \<Rightarrow> world \<Rightarrow> world" where
  "saveSettings e newSettings w =
     (let w1 = w\<lparr>settings := spread (settings w) newSettings\<rparr>
      in if save_ok e
         then sendStatusToPopup (w1\<lparr>stored_settings := Some (settings w1)\<rparr>)
         else w1)"

definition saveState :: "env \<Rightarrow> run_state \<Rightarrow> world \<Rightarrow> world" where
  "saveState e newState w =
     (if save_ok e then w\<lparr>stored_state := Some newState\<rparr> else w)"

definition loadSettingsAndState :: "env \<Rightarrow> world \<Rightarrow> world" where
  "loadSettingsAndState e w =
     (if load_ok e
      then (let w1 = w\<lparr>settings := spread DEFAULT_SETTINGS
                         (case stored_settings w of None \<Rightarrow> empty_settings | Some s \<Rightarrow> s)\<rparr>;
                twentyFourHoursAgo = now e - 24 * 60 * 60 * 1000;
                savedState = (case stored_state w of
                                None \<Rightarrow> \<lparr>rs_processedToday = 0, rs_lastActionTimestamp = 0\<rparr>
                              | Some s \<Rightarrow> s)
            in sendStatusToPopup
                 (if rs_lastActionTimestamp savedState < twentyFourHoursAgo
                  then w1\<lparr>processedToday := 0\<rparr>
                  else w1\<lparr>processedToday := rs_processedToday savedState\<rparr>))
      else sendStatusToPopup
             (saveState e \<lparr>rs_processedToday = 0, rs_lastActionTimestamp = 0\<rparr>
                (saveSettings e DEFAULT_SETTINGS
                   (w\<lparr>settings := DEFAULT_SETTINGS, processedToday := 0\<rparr>))))"

subsection \<open>Automation core logic\<close>

definition stopAutomation :: "world \<Rightarrow> world" where
  "stopAutomation w =
     (if \<not> isActive w \<and> \<not> isPausedForBatch w then w
      else (let w1 = w\<lparr>isActive := False, isPausedForBatch := False, actionType := None,
                       sessionProcessedCount := 0, currentTargets := [], currentIndex := 0,
                       alarms := (alarms w)(PERFORM_ACTION := None, BATCH_PAUSE := None)\<rparr>;
                w2 = (case currentTabId w1 of
                        None \<Rightarrow> w1
                      | Some t \<Rightarrow> (send_tab t StopAutomationCmd w1)\<lparr>currentTabId := None\<rparr>)
            in sendStatusToPopup w2))"

definition scheduleNextAction :: "real option \<Rightarrow> env \<Rightarrow> world \<Rightarrow> world" where
  "scheduleNextAction delayMs e w =
     (if \<not> isActive w then w
      else (let delaySeconds =
                  (case delayMs of
                     Some d \<Rightarrow> js_divide (Num d) 1000
                   | None \<Rightarrow> getRandomInt (to_number (intervalMin (settings w)))
                               (to_number (intervalMax (settings w))) (rnd e));
                delayMilliseconds = js_times delaySeconds (Num 1000)
            in sendStatusToPopup
                 (w\<lparr>alarms := (alarms w)(PERFORM_ACTION \<mapsto>
                        DelayInMinutes (js_divide delayMilliseconds 60000))\<rparr>)))"

definition scheduleBatchPause :: "env \<Rightarrow> world \<Rightarrow> world" where
  "scheduleBatchPause e w =
     (let w1 = w\<lparr>isActive := False, isPausedForBatch := True, sessionProcessedCount := 0,
                 currentTargets := [], currentIndex := 0\<rparr>;
          pauseSeconds = getRandomInt (to_number (pauseBetweenBatchesMin (settings w1)))
                           (to_number (pauseBetweenBatchesMax (settings w1))) (rnd e);
          pauseMilliseconds = js_times pauseSeconds (Num 1000)
      in sendStatusToPopup
           (w1\<lparr>alarms := (alarms w1)(PERFORM_ACTION := None,
                  BATCH_PAUSE \<mapsto> DelayInMinutes (js_divide pauseMilliseconds 60000))\<rparr>))"

definition scheduleDailyReset :: "world \<Rightarrow> world" where
  "scheduleDailyReset w =
     w\<lparr>alarms := (alarms w)(DAILY_RESET \<mapsto> PeriodInMinutes (Num (24 * 60)))\<rparr>"

text \<open>
  \<open>startAutomation(type)\<close>, in two parts: up to its wait for \<open>injectContentScript\<close>
  (which can last until the 10 s timeout for the script's \<open>ready\<close> message), and from
  there on. The first part either returns (\<open>Inl\<close>) or is suspended at that wait
  (\<open>Inr\<close>). \<open>!currentTabId\<close> holds for \<open>null\<close> and for the tab id 0.
\<close>

definition startAutomation_begin :: "action_type \<Rightarrow> env \<Rightarrow> world \<Rightarrow> world + world" where
  "startAutomation_begin ty e w =
     (if isActive w then Inl (sendStatusToPopup w)
      else (let w1 = loadSettingsAndState e w
            in if js_ge (Num (of_int (processedToday w1))) (to_number (dailyLimit (settings w1)))
               then Inl (sendStatusToPopup w1)
               else (let w2 = w1\<lparr>actionType := Some ty, sessionProcessedCount := 0,
                                  currentTargets := [], currentIndex := 0,
                                  isPausedForBatch := False, currentTabId := found_tab e\<rparr>
                     in (case currentTabId w2 of
                           None \<Rightarrow>
                             Inl (sendStatusToPopup (w2\<lparr>isActive := False, actionType := None\<rparr>))
                         | Some t \<Rightarrow>
                             if t = 0
                             then Inl (sendStatusToPopup
                                         (w2\<lparr>isActive := False, actionType := None\<rparr>))
                             else Inr w2))))"

text \<open>
  The second part reads the variables as they are when the wait ends. When the wait for
  the \<open>ready\<close> message times out, the promise returned by \<open>injectContentScript\<close>
  rejects outside its \<open>try\<close>, and \<open>startAutomation\<close> ends there with the state as it
  is. \<open>chrome.tabs.sendMessage\<close> with the tab id \<open>null\<close> throws, which ends the
  function as well.
\<close>

definition startAutomation_resume :: "env \<Rightarrow> world \<Rightarrow> world" where
  "startAutomation_resume e w2 =
     (case inject e of
        InjectFailed \<Rightarrow>
          sendStatusToPopup (w2\<lparr>isActive := False, actionType := None, currentTabId := None\<rparr>)
      | InjectTimeout \<Rightarrow> w2
      | Injected \<Rightarrow>
          (let w3 = sendStatusToPopup (w2\<lparr>isActive := True\<rparr>)
           in (case currentTabId w3 of
                 None \<Rightarrow> w3
               | Some t \<Rightarrow>
                   (let w4 = send_tab t (StartAutomationCmd (actionType w3)) w3
                    in if send_ok e
                       then scheduleNextAction (Some 1000) e w4
                       else stopAutomation w4))))"

text \<open>The whole function, when no other callback runs during the wait.\<close>

definition startAutomation :: "action_type \<Rightarrow> env \<Rightarrow> world \<Rightarrow> world" where
  "startAutomation ty e w =
     (case startAutomation_begin ty e w of
        Inl w' \<Rightarrow> w'
      | Inr w2 \<Rightarrow> startAutomation_resume e w2)"

definition executeNextAction :: "env \<Rightarrow> world \<Rightarrow> world" where
  "executeNextAction e w =
     (if \<not> isActive w then sendStatusToPopup w
      else (let w1 = loadSettingsAndState e w
            in if js_ge (Num (of_int (processedToday w1))) (to_number (dailyLimit (settings w1)))
               then sendStatusToPopup (stopAutomation w1)
               else if js_ge (Num (of_int (sessionProcessedCount w1)))
                         (to_number (actionsPerBatch (settings w1)))
               then scheduleBatchPause e w1
               else (case currentTabId w1 of
                       None \<Rightarrow> sendStatusToPopup (stopAutomation w1)
                     | Some t \<Rightarrow>
                         if \<not> tab_valid e then sendStatusToPopup (stopAutomation w1)
                         else (let w2 = sendStatusToPopup (send_tab t PerformActionCmd w1)
                               in if send_ok e then w2
                                  else sendStatusToPopup (stopAutomation w2)))))"

subsection \<open>Event listeners\<close>

definition critical_failed :: "string option \<Rightarrow> bool" where
  "critical_failed ty = (ty = Some ''domParsingError'' \<or> ty = Some ''clickError'')"

definition critical_error :: "string option \<Rightarrow> bool" where
  "critical_error ty =
     (ty = Some ''domParsingError'' \<or> ty = Some ''clickError'' \<or> ty = Some ''noTargetAtIndex'')"

text \<open>The \<open>switch (request.status)\<close> of the message listener, for a message of the current tab.\<close>

fun onAgentStatus :: "agent_status \<Rightarrow> env \<Rightarrow> world \<Rightarrow> world" where
  "onAgentStatus Ready e w = w"
| "onAgentStatus RunningStatus e w = w"
| "onAgentStatus Stopped e w = (if isActive w then stopAutomation w else w)"
| "onAgentStatus ActionCompleted e w =
     (let w1 = w\<lparr>sessionProcessedCount := sessionProcessedCount w + 1\<rparr>;
          w2 = w1\<lparr>processedToday := processedToday w1 + 1\<rparr>;
          w3 = saveState e \<lparr>rs_processedToday = processedToday w2,
                             rs_lastActionTimestamp = now e\<rparr> w2;
          w4 = sendStatusToPopup w3
      in if js_ge (Num (of_int (processedToday w4))) (to_number (dailyLimit (settings w4)))
         then stopAutomation w4
         else if js_ge (Num (of_int (sessionProcessedCount w4)))
                   (to_number (actionsPerBatch (settings w4)))
         then scheduleBatchPause e w4
         else scheduleNextAction None e w4)"
| "onAgentStatus (ActionFailed ty) e w =
     sendStatusToPopup
       (if critical_failed ty then stopAutomation w else scheduleNextAction None e w)"
| "onAgentStatus ActionBlocked e w = sendStatusToPopup (stopAutomation w)"
| "onAgentStatus UserSkipped e w = sendStatusToPopup (scheduleNextAction (Some 100) e w)"
| "onAgentStatus TargetsFound e w = w"
| "onAgentStatus Completed e w = sendStatusToPopup (stopAutomation w)"
| "onAgentStatus (ErrorStatus ty) e w =
     sendStatusToPopup (if critical_error ty then stopAutomation w else w)"
| "onAgentStatus OtherStatus e w = w"

fun onAlarm :: "alarm_name \<Rightarrow> env \<Rightarrow> world \<Rightarrow> world" where
  "onAlarm PERFORM_ACTION e w = executeNextAction e w"
| "onAlarm BATCH_PAUSE e w =
     (let w1 = w\<lparr>isPausedForBatch := False, isActive := True\<rparr>
      in (case currentTabId w1 of
            Some t \<Rightarrow>
              (let w2 = sendStatusToPopup (send_tab t (StartAutomationCmd (actionType w1)) w1)
               in if send_ok e then scheduleNextAction (Some 1000) e w2
                  else stopAutomation w2)
          | None \<Rightarrow> sendStatusToPopup (stopAutomation w1)))"
| "onAlarm DAILY_RESET e w =
     scheduleDailyReset
       (sendStatusToPopup
          (saveState e \<lparr>rs_processedToday = 0, rs_lastActionTimestamp = now e\<rparr>
             (w\<lparr>processedToday := 0\<rparr>)))"

text \<open>
  One callback. A one-shot alarm that fires is no longer pending. A message of a tab
  that is not the current tab is ignored. \<open>TabUpdated t u\<close> carries whether the update
  has a URL and, if so, whether it contains \<open>instagram.com\<close>.
\<close>

fun step :: "env \<Rightarrow> event \<Rightarrow> world \<Rightarrow> world" where
  "step e (PopupStart ty) w = startAutomation ty e (respond Acknowledged w)"
| "step e PopupStop w = respond Acknowledged (stopAutomation w)"
| "step e PopupGetSettings w = respond (SettingsReply (settings w)) w"
| "step e (PopupSaveSettings s) w = saveSettings e s (respond Acknowledged w)"
| "step e PopupGetStatus w = respond (StatusReply (getStatus w)) w"
| "step e PopupUnknown w = respond UnknownCommand w"
| "step e (Agent t st) w = (if Some t \<noteq> currentTabId w then w else onAgentStatus st e w)"
| "step e (Alarm DAILY_RESET) w = onAlarm DAILY_RESET e w"
| "step e (Alarm a) w = onAlarm a e (w\<lparr>alarms := (alarms w)(a := None)\<rparr>)"
| "step e (TabUpdated t u) w =
     (if isActive w \<and> currentTabId w = Some t \<and> u = Some False then stopAutomation w else w)"
| "step e (TabRemoved t) w =
     (if isActive w \<and> currentTabId w = Some t then stopAutomation w else w)"

text \<open>
  The service worker starts with the module-level initial values, whatever alarms and
  storage the browser has kept, and runs \<open>loadSettingsAndState(); scheduleDailyReset();\<close>.
\<close>

definition boot ::
  "(alarm_name \<Rightarrow> alarm_info option) \<Rightarrow> settings_obj option \<Rightarrow> run_state option \<Rightarrow> world" where
  "boot al ss rs =
     \<lparr> isActive = False, currentTabId = None, actionType = None, settings = empty_settings,
       processedToday = 0, sessionProcessedCount = 0, currentTargets = [], currentIndex = 0,
       isPausedForBatch = False, alarms = al, stored_settings = ss, stored_state = rs,
       to_tab = [], published = [], replies = [] \<rparr>"

definition startup ::
  "env \<Rightarrow> (alarm_name \<Rightarrow> alarm_info option) \<Rightarrow> settings_obj option \<Rightarrow> run_state option \<Rightarrow> world" where
  "startup e al ss rs = loadSettingsAndState e (scheduleDailyReset (boot al ss rs))"

fun run :: "(env \<times> event) list \<Rightarrow> world \<Rightarrow> world" where
  "run [] w = w"
| "run ((e, ev) # evs) w = run evs (step e ev w)"

subsection \<open>Predicates on status snapshots\<close>

fun is_paused_text :: "status_text \<Rightarrow> bool" where
  "is_paused_text (PausedForBatchBreak n a) = True"
| "is_paused_text _ = False"

definition snapshot_ok :: "status \<Rightarrow> bool" where
  "snapshot_ok p =
     ((st_isPausedForBatch p \<longrightarrow> \<not> st_isActive p \<and> st_statusText p = Idle)
      \<and> \<not> is_paused_text (st_statusText p))"

fun reply_ok :: "reply \<Rightarrow> bool" where
  "reply_ok (StatusReply p) = snapshot_ok p"
| "reply_ok _ = True"

definition hist_ok :: "world \<Rightarrow> bool" where
  "hist_ok w = (list_all snapshot_ok (published w) \<and> list_all reply_ok (replies w))"

definition flags_inv :: "world \<Rightarrow> bool" where
  "flags_inv w = ((isPausedForBatch w \<longrightarrow> \<not> isActive w) \<and> hist_ok w)"

subsection \<open>A concrete run\<close>

text \<open>
  The worker starts on empty storage; the popup starts a follow run on tab 7; the action
  alarm fires and one action is dispatched.
\<close>

definition example_env :: env where
  "example_env =
     \<lparr> now = 1700000000000, rnd = 1 / 2, load_ok = True, save_ok = True,
       found_tab = Some 7, inject = Injected, tab_valid = True, send_ok = True \<rparr>"

definition example_idle :: world where
  "example_idle = startup example_env (\<lambda>a. None) None None"

definition example_running :: world where
  "example_running = step example_env (PopupStart Follow) example_idle"

definition example_dispatched :: world where
  "example_dispatched = step example_env (Alarm PERFORM_ACTION) example_running"

text \<open>Then the popup saves settings \<open>s\<close> while the action is in flight.\<close>

definition example_saved :: "settings_obj \<Rightarrow> world" where
  "example_saved s = step example_env (PopupSaveSettings s) example_dispatched"

text \<open>With a batch size of 1, the success of that action ends the batch.\<close>

definition example_paused :: world where
  "example_paused =
     step example_env (Agent 7 ActionCompleted)
       (example_saved (empty_settings\<lparr>actionsPerBatch := Some (Num 1)\<rparr>))"

subsection \<open>A run in which a callback runs during the wait of startAutomation\<close>

text \<open>
  After the action of the concrete run is dispatched, the batch size 1 is saved and the
  popup stops the run while that action is still in flight (the page agent goes on with
  an action it has begun and reports its outcome after its own waits). The popup starts a
  new run at once. The start command is suspended at its wait for
  \<open>injectContentScript\<close>, with tab 7 as the current tab again. While it waits, the
  success outcome of the action in flight arrives. Then the wait ends and
  \<open>startAutomation\<close> goes on.
\<close>

definition example_batch1_idle :: world where
  "example_batch1_idle =
     step example_env PopupStop
       (example_saved (empty_settings\<lparr>actionsPerBatch := Some (Num 1)\<rparr>))"

definition example_suspended :: world where
  "example_suspended =
     (case startAutomation_begin Follow example_env (respond Acknowledged example_batch1_idle) of
        Inl w \<Rightarrow> w
      | Inr w \<Rightarrow> w)"

definition example_raced :: world where
  "example_raced =
     startAutomation_resume example_env
       (step example_env (Agent 7 ActionCompleted) example_suspended)"

section \<open>Properties\<close>

subsection \<open>Numbers below the overflow\<close>

lemma js_overflow_large: "2 ^ 60 \<le> js_overflow"
proof -
  have "(2::real) ^ 970 \<le> 2 ^ 1023" by (rule power_increasing) simp_all
  moreover have "(2::real) ^ 1024 = 2 * 2 ^ 1023" by simp
  moreover have "(2::real) ^ 60 \<le> 2 ^ 1023" by (rule power_increasing) simp_all
  ultimately show ?thesis unfolding js_overflow_def by linarith
qed

lemma js_norm_Num: "\<bar>x\<bar> < 2 ^ 60 \<Longrightarrow> js_norm x = Num x"
  using js_overflow_large by (auto simp add: js_norm_def)

lemma js_norm_small [simp]: "\<bar>x\<bar> \<le> 1000000000000000 \<Longrightarrow> js_norm x = Num x"
  by (rule js_norm_Num) simp

subsection \<open>What the helper functions leave unchanged\<close>

lemma sendStatusToPopup_fields [simp]:
  "isActive (sendStatusToPopup w) = isActive w"
  "currentTabId (sendStatusToPopup w) = currentTabId w"
  "actionType (sendStatusToPopup w) = actionType w"
  "settings (sendStatusToPopup w) = settings w"
  "processedToday (sendStatusToPopup w) = processedToday w"
  "sessionProcessedCount (sendStatusToPopup w) = sessionProcessedCount w"
  "currentTargets (sendStatusToPopup w) = currentTargets w"
  "currentIndex (sendStatusToPopup w) = currentIndex w"
  "isPausedForBatch (sendStatusToPopup w) = isPausedForBatch w"
  "alarms (sendStatusToPopup w) = alarms w"
  "stored_settings (sendStatusToPopup w) = stored_settings w"
  "stored_state (sendStatusToPopup w) = stored_state w"
  "to_tab (sendStatusToPopup w) = to_tab w"
  "replies (sendStatusToPopup w) = replies w"
  "published (sendStatusToPopup w) = published w @ [getStatus w]"
  by (simp_all add: sendStatusToPopup_def)

lemma send_tab_fields [simp]:
  "isActive (send_tab t c w) = isActive w"
  "currentTabId (send_tab t c w) = currentTabId w"
  "actionType (send_tab t c w) = actionType w"
  "settings (send_tab t c w) = settings w"
  "processedToday (send_tab t c w) = processedToday w"
  "sessionProcessedCount (send_tab t c w) = sessionProcessedCount w"
  "currentTargets (send_tab t c w) = currentTargets w"
  "currentIndex (send_tab t c w) = currentIndex w"
  "isPausedForBatch (send_tab t c w) = isPausedForBatch w"
  "alarms (send_tab t c w) = alarms w"
  "stored_settings (send_tab t c w) = stored_settings w"
  "stored_state (send_tab t c w) = stored_state w"
  "to_tab (send_tab t c w) = to_tab w @ [(t, c)]"
  "replies (send_tab t c w) = replies w"
  "published (send_tab t c w) = published w"
  by (simp_all add: send_tab_def)

lemma respond_fields [simp]:
  "isActive (respond r w) = isActive w"
  "currentTabId (respond r w) = currentTabId w"
  "actionType (respond r w) = actionType w"
  "settings (respond r w) = settings w"
  "processedToday (respond r w) = processedToday w"
  "sessionProcessedCount (respond r w) = sessionProcessedCount w"
  "currentTargets (respond r w) = currentTargets w"
  "currentIndex (respond r w) = currentIndex w"
  "isPausedForBatch (respond r w) = isPausedForBatch w"
  "alarms (respond r w) = alarms w"
  "stored_settings (respond r w) = stored_settings w"
  "stored_state (respond r w) = stored_state w"
  "to_tab (respond r w) = to_tab w"
  "replies (respond r w) = replies w @ [r]"
  "published (respond r w) = published w"
  by (simp_all add: respond_def)

lemma saveState_fields [simp]:
  "isActive (saveState e s w) = isActive w"
  "currentTabId (saveState e s w) = currentTabId w"
  "actionType (saveState e s w) = actionType w"
  "settings (saveState e s w) = settings w"
  "processedToday (saveState e s w) = processedToday w"
  "sessionProcessedCount (saveState e s w) = sessionProcessedCount w"
  "currentTargets (saveState e s w) = currentTargets w"
  "currentIndex (saveState e s w) = currentIndex w"
  "isPausedForBatch (saveState e s w) = isPausedForBatch w"
  "alarms (saveState e s w) = alarms w"
  "stored_settings (saveState e s w) = stored_settings w"
  "stored_state (saveState e s w) = (if save_ok e then Some s else stored_state w)"
  "to_tab (saveState e s w) = to_tab w"
  "replies (saveState e s w) = replies w"
  "published (saveState e s w) = published w"
  by (simp_all add: saveState_def)

lemma stopAutomation_flags [simp]:
  "isActive (stopAutomation w) = False"
  "isPausedForBatch (stopAutomation w) = False"
  by (simp_all add: stopAutomation_def Let_def split: option.splits)

lemma stopAutomation_idle: "\<not> isActive w \<Longrightarrow> \<not> isPausedForBatch w \<Longrightarrow> stopAutomation w = w"
  by (simp add: stopAutomation_def)

lemma stopAutomation_running:
  assumes "isActive w \<or> isPausedForBatch w"
  shows "alarms (stopAutomation w) = (alarms w)(PERFORM_ACTION := None, BATCH_PAUSE := None)"
    and "currentTabId (stopAutomation w) = None"
    and "actionType (stopAutomation w) = None"
    and "sessionProcessedCount (stopAutomation w) = 0"
    and "processedToday (stopAutomation w) = processedToday w"
    and "to_tab (stopAutomation w) =
           (case currentTabId w of None \<Rightarrow> to_tab w | Some t \<Rightarrow> to_tab w @ [(t, StopAutomationCmd)])"
    and "settings (stopAutomation w) = settings w"
    and "stored_state (stopAutomation w) = stored_state w"
  using assms by (auto simp add: stopAutomation_def Let_def split: option.splits)

lemma saveSettings_fields [simp]:
  "isActive (saveSettings e s w) = isActive w"
  "currentTabId (saveSettings e s w) = currentTabId w"
  "actionType (saveSettings e s w) = actionType w"
  "settings (saveSettings e s w) = spread (settings w) s"
  "processedToday (saveSettings e s w) = processedToday w"
  "sessionProcessedCount (saveSettings e s w) = sessionProcessedCount w"
  "isPausedForBatch (saveSettings e s w) = isPausedForBatch w"
  "alarms (saveSettings e s w) = alarms w"
  "stored_state (saveSettings e s w) = stored_state w"
  "to_tab (saveSettings e s w) = to_tab w"
  "replies (saveSettings e s w) = replies w"
  by (simp_all add: saveSettings_def Let_def)

lemma loadSettingsAndState_fields [simp]:
  "isActive (loadSettingsAndState e w) = isActive w"
  "currentTabId (loadSettingsAndState e w) = currentTabId w"
  "actionType (loadSettingsAndState e w) = actionType w"
  "sessionProcessedCount (loadSettingsAndState e w) = sessionProcessedCount w"
  "isPausedForBatch (loadSettingsAndState e w) = isPausedForBatch w"
  "alarms (loadSettingsAndState e w) = alarms w"
  "to_tab (loadSettingsAndState e w) = to_tab w"
  "replies (loadSettingsAndState e w) = replies w"
  by (simp_all add: loadSettingsAndState_def Let_def)

lemma loadSettingsAndState_stored_settings:
  "load_ok e \<Longrightarrow> stored_settings (loadSettingsAndState e w) = stored_settings w"
  by (simp add: loadSettingsAndState_def Let_def)

lemma loadSettingsAndState_stored:
  "stored_state (loadSettingsAndState e w) =
     (if \<not> load_ok e \<and> save_ok e
      then Some \<lparr>rs_processedToday = 0, rs_lastActionTimestamp = 0\<rparr>
      else stored_state w)"
  by (simp add: loadSettingsAndState_def Let_def)

lemma scheduleNextAction_fields [simp]:
  "isActive (scheduleNextAction d e w) = isActive w"
  "currentTabId (scheduleNextAction d e w) = currentTabId w"
  "actionType (scheduleNextAction d e w) = actionType w"
  "settings (scheduleNextAction d e w) = settings w"
  "processedToday (scheduleNextAction d e w) = processedToday w"
  "sessionProcessedCount (scheduleNextAction d e w) = sessionProcessedCount w"
  "isPausedForBatch (scheduleNextAction d e w) = isPausedForBatch w"
  "stored_state (scheduleNextAction d e w) = stored_state w"
  "stored_settings (scheduleNextAction d e w) = stored_settings w"
  "to_tab (scheduleNextAction d e w) = to_tab w"
  "replies (scheduleNextAction d e w) = replies w"
  by (simp_all add: scheduleNextAction_def Let_def)

lemma scheduleNextAction_alarms:
  "alarms (scheduleNextAction d e w) =
     (if isActive w
      then (alarms w)(PERFORM_ACTION \<mapsto>
             DelayInMinutes (js_divide (js_times
               (case d of Some ms \<Rightarrow> js_divide (Num ms) 1000
                | None \<Rightarrow> getRandomInt (to_number (intervalMin (settings w)))
                            (to_number (intervalMax (settings w))) (rnd e))
               (Num 1000)) 60000))
      else alarms w)"
  by (simp add: scheduleNextAction_def Let_def)

lemma scheduleBatchPause_fields [simp]:
  "isActive (scheduleBatchPause e w) = False"
  "isPausedForBatch (scheduleBatchPause e w) = True"
  "currentTabId (scheduleBatchPause e w) = currentTabId w"
  "actionType (scheduleBatchPause e w) = actionType w"
  "settings (scheduleBatchPause e w) = settings w"
  "processedToday (scheduleBatchPause e w) = processedToday w"
  "sessionProcessedCount (scheduleBatchPause e w) = 0"
  "stored_state (scheduleBatchPause e w) = stored_state w"
  "stored_settings (scheduleBatchPause e w) = stored_settings w"
  "to_tab (scheduleBatchPause e w) = to_tab w"
  "replies (scheduleBatchPause e w) = replies w"
  "alarms (scheduleBatchPause e w) =
     (alarms w)(PERFORM_ACTION := None,
        BATCH_PAUSE \<mapsto> DelayInMinutes (js_divide (js_times
          (getRandomInt (to_number (pauseBetweenBatchesMin (settings w)))
             (to_number (pauseBetweenBatchesMax (settings w))) (rnd e)) (Num 1000)) 60000))"
  by (simp_all add: scheduleBatchPause_def Let_def)

subsection \<open>The concrete run\<close>

lemma example_idle_fields:
  "isActive example_idle = False"
  "isPausedForBatch example_idle = False"
  "currentTabId example_idle = None"
  "settings example_idle = DEFAULT_SETTINGS"
  "processedToday example_idle = 0"
  "stored_state example_idle = None"
  "stored_settings example_idle = None"
  "alarms example_idle = (\<lambda>a. None)(DAILY_RESET \<mapsto> PeriodInMinutes (Num (24 * 60)))"
  by (simp_all add: example_idle_def startup_def boot_def scheduleDailyReset_def
      loadSettingsAndState_def example_env_def Let_def spread_def DEFAULT_SETTINGS_def
      empty_settings_def)

lemma example_running_fields:
  "isActive example_running = True"
  "isPausedForBatch example_running = False"
  "currentTabId example_running = Some 7"
  "settings example_running = DEFAULT_SETTINGS"
  "processedToday example_running = 0"
  "sessionProcessedCount example_running = 0"
  "alarms example_running PERFORM_ACTION = Some (DelayInMinutes (Num (1 / 60)))"
  "stored_state example_running = None"
  "stored_settings example_running = None"
  by (simp_all add: example_running_def startAutomation_def startAutomation_begin_def
      startAutomation_resume_def example_idle_fields
      loadSettingsAndState_def Let_def scheduleNextAction_alarms loadSettingsAndState_stored_settings
      spread_def DEFAULT_SETTINGS_def empty_settings_def example_env_def)

lemma example_dispatched_fields:
  "isActive example_dispatched = True"
  "isPausedForBatch example_dispatched = False"
  "currentTabId example_dispatched = Some 7"
  "settings example_dispatched = DEFAULT_SETTINGS"
  "processedToday example_dispatched = 0"
  "sessionProcessedCount example_dispatched = 0"
  "alarms example_dispatched PERFORM_ACTION = None"
  "stored_state example_dispatched = None"
  by (simp_all add: example_dispatched_def executeNextAction_def example_running_fields
      loadSettingsAndState_def Let_def 
      spread_def DEFAULT_SETTINGS_def empty_settings_def example_env_def)

subsection \<open>Bounds of the random integer\<close>

lemma getRandomInt_Num:
  assumes "\<bar>a\<bar> \<le> 2 ^ 53" "\<bar>b\<bar> \<le> 2 ^ 53" "0 \<le> r" "r < 1"
  shows "getRandomInt (Num a) (Num b) r =
     Num (of_int (\<lfloor>r * of_int (\<lfloor>b\<rfloor> - \<lceil>a\<rceil> + 1)\<rfloor> + \<lceil>a\<rceil>))"
proof -
  define A where "A = \<lceil>a\<rceil>"
  define B where "B = \<lfloor>b\<rfloor>"
  define d where "d = B - A + 1"
  define f where "f = \<lfloor>r * of_int d\<rfloor>"
  have A: "\<bar>real_of_int A\<bar> \<le> 2 ^ 53 + 1" unfolding A_def using assms(1) by linarith
  have B: "\<bar>real_of_int B\<bar> \<le> 2 ^ 53 + 1" unfolding B_def using assms(2) by linarith
  have d: "\<bar>real_of_int d\<bar> \<le> 2 ^ 55" unfolding d_def using A B by simp
  have "\<bar>r * real_of_int d\<bar> = \<bar>r\<bar> * \<bar>real_of_int d\<bar>" by (rule abs_mult)
  also have "\<dots> \<le> 1 * \<bar>real_of_int d\<bar>"
    using assms(3,4) by (intro mult_right_mono) simp_all
  finally have rd: "\<bar>r * real_of_int d\<bar> \<le> 2 ^ 55" using d by simp
  have f: "\<bar>real_of_int f\<bar> \<le> 2 ^ 55 + 1" unfolding f_def using rd by linarith
  have n1: "js_norm (real_of_int B - real_of_int A) = Num (real_of_int B - real_of_int A)"
    using A B by (simp add: js_norm_Num)
  have n2: "js_norm (real_of_int B - real_of_int A + 1) = Num (real_of_int d)"
    using d by (simp add: js_norm_Num d_def)
  have n3: "js_norm (r * real_of_int d) = Num (r * real_of_int d)"
    using rd by (simp add: js_norm_Num)
  have n4: "js_norm (real_of_int f + real_of_int A) = Num (real_of_int (f + A))"
    using f A by (simp add: js_norm_Num)
  have "getRandomInt (Num a) (Num b) r = Num (real_of_int (f + A))"
    by (simp add: getRandomInt_def js_minus_def A_def [symmetric] B_def [symmetric]
        n1 n2 n3 f_def [symmetric] n4)
  then show ?thesis by (simp add: f_def d_def A_def B_def)
qed

lemma getRandomInt_overflow:
  "getRandomInt (Num (- (2 ^ 1023))) (Num (2 ^ 1023)) 0 = NaN"
  "getRandomInt (Num (- (2 ^ 1023))) (Num (2 ^ 1023)) (1 / 2) = PosInf"
proof -
  have c: "js_ceil (Num (- (2 ^ 1023))) = Num (- (2 ^ 1023))"
    by (simp add: ceiling_minus)
  have fl: "js_floor (Num (2 ^ 1023)) = Num (2 ^ 1023)" by simp
  have m: "js_minus (Num (2 ^ 1023)) (Num (- (2 ^ 1023))) = PosInf"
    by (simp add: js_minus_def js_norm_def js_overflow_def)
  show "getRandomInt (Num (- (2 ^ 1023))) (Num (2 ^ 1023)) 0 = NaN"
    unfolding getRandomInt_def Let_def c fl m by simp
  show "getRandomInt (Num (- (2 ^ 1023))) (Num (2 ^ 1023)) (1 / 2) = PosInf"
    unfolding getRandomInt_def Let_def c fl m by simp
qed

lemma scaled_floor_bounds:
  fixes r :: real and d :: int
  assumes "0 \<le> r" "r < 1"
  shows "min 0 d \<le> \<lfloor>r * of_int d\<rfloor>" and "\<lfloor>r * of_int d\<rfloor> \<le> max 0 (d - 1)"
proof -
  show "min 0 d \<le> \<lfloor>r * of_int d\<rfloor>"
  proof (cases "0 \<le> d")
    case True
    then have "0 \<le> r * of_int d" using assms by simp
    then show ?thesis using True by (simp add: le_floor_iff)
  next
    case False
    then have "of_int d \<le> r * of_int d" using assms
      by (simp add: mult_le_cancel_right2)
    then show ?thesis using False by (simp add: le_floor_iff)
  qed
  show "\<lfloor>r * of_int d\<rfloor> \<le> max 0 (d - 1)"
  proof (cases "0 < d")
    case True
    then have "r * of_int d < 1 * of_int d" using assms by (intro mult_strict_right_mono) simp_all
    then have "r * of_int d < of_int d" by (simp only: mult_1)
    then have "\<lfloor>r * of_int d\<rfloor> < d" by (rule floor_less_iff [THEN iffD2])
    then show ?thesis by linarith
  next
    case False
    then have "r * of_int d \<le> 0" using assms by (simp add: mult_le_0_iff)
    then have "\<lfloor>r * of_int d\<rfloor> \<le> \<lfloor>0::real\<rfloor>" by (rule floor_mono)
    then have "\<lfloor>r * of_int d\<rfloor> \<le> 0" by (simp only: floor_zero)
    then show ?thesis by linarith
  qed
qed

subsection \<open>What the automation functions write to storage\<close>

lemma stopAutomation_stored [simp]:
  "stored_state (stopAutomation w) = stored_state w"
  by (simp add: stopAutomation_def Let_def split: option.splits)

lemma startAutomation_stored:
  "stored_state (startAutomation ty e w) =
     (if isActive w then stored_state w else stored_state (loadSettingsAndState e w))"
  by (simp add: startAutomation_def startAutomation_begin_def startAutomation_resume_def
      Let_def split: option.splits inject_result.splits)

lemma executeNextAction_stored:
  "stored_state (executeNextAction e w) =
     (if isActive w then stored_state (loadSettingsAndState e w) else stored_state w)"
  by (simp add: executeNextAction_def Let_def split: option.splits)

lemma onAgentStatus_stored:
  "stored_state (onAgentStatus st e w) =
     (if st = ActionCompleted \<and> save_ok e
      then Some \<lparr>rs_processedToday = processedToday w + 1, rs_lastActionTimestamp = now e\<rparr>
      else stored_state w)"
  by (cases st) (simp_all add: Let_def)

subsection \<open>The concrete run after saved settings\<close>

lemma example_saved_fields:
  "isActive (example_saved s) = True"
  "isPausedForBatch (example_saved s) = False"
  "currentTabId (example_saved s) = Some 7"
  "settings (example_saved s) = spread DEFAULT_SETTINGS s"
  "processedToday (example_saved s) = 0"
  "sessionProcessedCount (example_saved s) = 0"
  "alarms (example_saved s) PERFORM_ACTION = None"
  "stored_state (example_saved s) = None"
  by (simp_all add: example_saved_def example_dispatched_fields)

lemma example_paused_run:
  "example_paused =
     run [(example_env, PopupStart Follow), (example_env, Alarm PERFORM_ACTION),
          (example_env, PopupSaveSettings (empty_settings\<lparr>actionsPerBatch := Some (Num 1)\<rparr>)),
          (example_env, Agent 7 ActionCompleted)]
       (startup example_env (\<lambda>a. None) None None)"
  by (simp only: example_paused_def example_saved_def example_dispatched_def
      example_running_def example_idle_def run.simps)

lemma example_paused_fields:
  "isPausedForBatch example_paused = True"
  "published example_paused \<noteq> []"
  "st_isPausedForBatch (last (published example_paused)) = True"
  by (simp_all add: example_paused_def example_saved_fields Let_def spread_def
      DEFAULT_SETTINGS_def empty_settings_def scheduleBatchPause_def getStatus_def)

subsection \<open>The flags and the published snapshots\<close>

lemma snapshot_ok_getStatus [simp]:
  "snapshot_ok (getStatus w) = (isPausedForBatch w \<longrightarrow> \<not> isActive w)"
  by (auto simp add: snapshot_ok_def getStatus_def)

lemma hist_ok_update [simp]:
  "hist_ok (w\<lparr>isActive := b\<rparr>) = hist_ok w"
  "hist_ok (w\<lparr>isPausedForBatch := b\<rparr>) = hist_ok w"
  "hist_ok (w\<lparr>currentTabId := c\<rparr>) = hist_ok w"
  "hist_ok (w\<lparr>actionType := a\<rparr>) = hist_ok w"
  "hist_ok (w\<lparr>settings := s\<rparr>) = hist_ok w"
  "hist_ok (w\<lparr>processedToday := n\<rparr>) = hist_ok w"
  "hist_ok (w\<lparr>sessionProcessedCount := n\<rparr>) = hist_ok w"
  "hist_ok (w\<lparr>currentTargets := ts\<rparr>) = hist_ok w"
  "hist_ok (w\<lparr>currentIndex := i\<rparr>) = hist_ok w"
  "hist_ok (w\<lparr>alarms := al\<rparr>) = hist_ok w"
  "hist_ok (w\<lparr>stored_settings := ss\<rparr>) = hist_ok w"
  "hist_ok (w\<lparr>stored_state := rs\<rparr>) = hist_ok w"
  "hist_ok (w\<lparr>to_tab := m\<rparr>) = hist_ok w"
  by (simp_all add: hist_ok_def)

lemma flags_inv_update [simp]:
  "flags_inv (w\<lparr>isActive := b\<rparr>) = ((isPausedForBatch w \<longrightarrow> \<not> b) \<and> hist_ok w)"
  "flags_inv (w\<lparr>isPausedForBatch := b\<rparr>) = ((b \<longrightarrow> \<not> isActive w) \<and> hist_ok w)"
  "flags_inv (w\<lparr>currentTabId := c\<rparr>) = flags_inv w"
  "flags_inv (w\<lparr>actionType := a\<rparr>) = flags_inv w"
  "flags_inv (w\<lparr>settings := s\<rparr>) = flags_inv w"
  "flags_inv (w\<lparr>processedToday := n\<rparr>) = flags_inv w"
  "flags_inv (w\<lparr>sessionProcessedCount := n\<rparr>) = flags_inv w"
  "flags_inv (w\<lparr>currentTargets := ts\<rparr>) = flags_inv w"
  "flags_inv (w\<lparr>currentIndex := i\<rparr>) = flags_inv w"
  "flags_inv (w\<lparr>alarms := al\<rparr>) = flags_inv w"
  "flags_inv (w\<lparr>stored_settings := ss\<rparr>) = flags_inv w"
  "flags_inv (w\<lparr>stored_state := rs\<rparr>) = flags_inv w"
  "flags_inv (w\<lparr>to_tab := m\<rparr>) = flags_inv w"
  by (simp_all add: flags_inv_def)

lemma flags_inv_hist_ok [simp]: "flags_inv w \<Longrightarrow> hist_ok w"
  by (simp add: flags_inv_def)

lemma flags_inv_sendStatusToPopup [simp]: "flags_inv w \<Longrightarrow> flags_inv (sendStatusToPopup w)"
  by (auto simp add: flags_inv_def hist_ok_def)

lemma flags_inv_send_tab [simp]: "flags_inv (send_tab t c w) = flags_inv w"
  by (simp add: send_tab_def)

lemma flags_inv_respond [simp]: "reply_ok r \<Longrightarrow> flags_inv w \<Longrightarrow> flags_inv (respond r w)"
  by (simp add: flags_inv_def hist_ok_def)

lemma flags_inv_saveState [simp]: "flags_inv (saveState e s w) = flags_inv w"
  by (simp add: saveState_def)

lemma flags_inv_saveSettings [simp]: "flags_inv w \<Longrightarrow> flags_inv (saveSettings e s w)"
  by (simp add: saveSettings_def Let_def)

lemma flags_inv_loadSettingsAndState [simp]:
  "flags_inv w \<Longrightarrow> flags_inv (loadSettingsAndState e w)"
  by (simp add: loadSettingsAndState_def Let_def)

lemma flags_inv_stopAutomation [simp]: "flags_inv w \<Longrightarrow> flags_inv (stopAutomation w)"
  by (simp add: stopAutomation_def Let_def split: option.splits)

lemma flags_inv_scheduleNextAction [simp]:
  "flags_inv w \<Longrightarrow> flags_inv (scheduleNextAction d e w)"
  by (simp add: scheduleNextAction_def Let_def)

lemma flags_inv_scheduleBatchPause [simp]:
  "flags_inv w \<Longrightarrow> flags_inv (scheduleBatchPause e w)"
  by (simp add: scheduleBatchPause_def Let_def)

lemma flags_inv_scheduleDailyReset [simp]: "flags_inv (scheduleDailyReset w) = flags_inv w"
  by (simp add: scheduleDailyReset_def)

lemma flags_inv_startAutomation_begin:
  "flags_inv w \<Longrightarrow>
     (case startAutomation_begin ty e w of
        Inl w' \<Rightarrow> flags_inv w'
      | Inr w2 \<Rightarrow> flags_inv w2 \<and> \<not> isPausedForBatch w2)"
  by (simp add: startAutomation_begin_def Let_def split: option.splits)

lemma flags_inv_startAutomation_resume:
  "flags_inv w \<Longrightarrow> \<not> isPausedForBatch w \<Longrightarrow> flags_inv (startAutomation_resume e w)"
  by (simp add: startAutomation_resume_def Let_def split: option.splits inject_result.splits)

lemma flags_inv_startAutomation: "flags_inv w \<Longrightarrow> flags_inv (startAutomation ty e w)"
  using flags_inv_startAutomation_begin [of w ty e]
  by (auto simp add: startAutomation_def flags_inv_startAutomation_resume split: sum.splits)

lemma flags_inv_executeNextAction: "flags_inv w \<Longrightarrow> flags_inv (executeNextAction e w)"
  by (simp add: executeNextAction_def Let_def split: option.splits)

lemma flags_inv_onAgentStatus: "flags_inv w \<Longrightarrow> flags_inv (onAgentStatus st e w)"
  by (cases st) (simp_all add: Let_def)

lemma flags_inv_onAlarm: "flags_inv w \<Longrightarrow> flags_inv (onAlarm a e w)"
  by (cases a) (simp_all add: flags_inv_executeNextAction Let_def split: option.splits)

lemma flags_inv_step: "flags_inv w \<Longrightarrow> flags_inv (step e ev w)"
proof (cases ev)
  case (PopupStart ty)
  assume "flags_inv w"
  then show ?thesis using PopupStart by (simp add: flags_inv_startAutomation)
next
  case PopupGetStatus
  assume "flags_inv w"
  then show ?thesis using PopupGetStatus by (auto simp add: flags_inv_def hist_ok_def)
next
  case (Agent t st)
  assume "flags_inv w"
  then show ?thesis using Agent by (simp add: flags_inv_onAgentStatus)
next
  case (Alarm a)
  assume inv: "flags_inv w"
  then have "flags_inv (w\<lparr>alarms := (alarms w)(a := None)\<rparr>)" by simp
  then have "flags_inv (onAlarm a e (w\<lparr>alarms := (alarms w)(a := None)\<rparr>))"
    by (rule flags_inv_onAlarm)
  then show ?thesis using Alarm inv flags_inv_onAlarm [of w DAILY_RESET e]
    by (cases a) simp_all
qed simp_all

lemma flags_inv_startup: "flags_inv (startup e al ss rs)"
proof -
  have "flags_inv (boot al ss rs)" by (simp add: boot_def flags_inv_def hist_ok_def)
  then show ?thesis by (simp add: startup_def)
qed

lemma flags_inv_run: "flags_inv w \<Longrightarrow> flags_inv (run evs w)"
proof (induction evs arbitrary: w)
  case Nil
  then show ?case by simp
next
  case (Cons x evs)
  obtain e ev where x: "x = (e, ev)" by (cases x)
  show ?case using Cons x by (simp add: flags_inv_step)
qed

subsection \<open>Runs of whole callbacks\<close>

text \<open>
  In every state the controller reaches from its start by a sequence of callbacks of
  which each runs to its end before the next begins, \<open>isPausedForBatch\<close> implies that
  \<open>isActive\<close> is false, and no snapshot pushed to the popup or given in reply to
  \<open>getStatus\<close> has the text "Paused for batch break". What breaks this in the code is
  therefore only a callback that runs during a wait of another.
\<close>

lemma atomic_runs_keep_flags:
  "(isPausedForBatch (run evs (startup e al ss rs)) \<longrightarrow> \<not> isActive (run evs (startup e al ss rs)))
   \<and> (\<forall>p \<in> set (published (run evs (startup e al ss rs))).
         (st_isPausedForBatch p \<longrightarrow> \<not> st_isActive p \<and> st_statusText p = Idle)
       \<and> \<not> is_paused_text (st_statusText p))
   \<and> (\<forall>p. StatusReply p \<in> set (replies (run evs (startup e al ss rs))) \<longrightarrow>
         (st_isPausedForBatch p \<longrightarrow> \<not> st_isActive p \<and> st_statusText p = Idle)
       \<and> \<not> is_paused_text (st_statusText p))"
proof -
  have inv: "flags_inv (run evs (startup e al ss rs))"
    by (rule flags_inv_run [OF flags_inv_startup])
  have r: "\<And>p. StatusReply p \<in> set (replies (run evs (startup e al ss rs))) \<Longrightarrow> snapshot_ok p"
  proof -
    fix p assume "StatusReply p \<in> set (replies (run evs (startup e al ss rs)))"
    then have "reply_ok (StatusReply p)"
      using inv by (auto simp add: flags_inv_def hist_ok_def list_all_iff)
    then show "snapshot_ok p" by simp
  qed
  show ?thesis using inv r
    by (auto simp add: flags_inv_def hist_ok_def list_all_iff snapshot_ok_def)
qed

lemma atomic_runs_keep_flags_example:
  "isPausedForBatch example_paused
   \<and> \<not> isActive example_paused
   \<and> last (published example_paused) \<in> set (published example_paused)
   \<and> st_isPausedForBatch (last (published example_paused))
   \<and> st_statusText (last (published example_paused)) = Idle"
  using atomic_runs_keep_flags
      [of "[(example_env, PopupStart Follow), (example_env, Alarm PERFORM_ACTION),
            (example_env, PopupSaveSettings (empty_settings\<lparr>actionsPerBatch := Some (Num 1)\<rparr>)),
            (example_env, Agent 7 ActionCompleted)]"
          example_env "\<lambda>a. None" None None]
    example_paused_fields last_in_set [of "published example_paused"]
  unfolding example_paused_run [symmetric]
  by blast

section \<open>Claims\<close>

text \<open>
  C1. A success outcome of the page agent of the current tab, processed while the
  controller is active, increments \<open>sessionProcessedCount\<close> and \<open>processedToday\<close>
  (the status published next shows both counts one higher, and the new daily count is
  saved with the current time). Then, with the incremented counts: if \<open>processedToday\<close>
  has reached \<open>dailyLimit\<close> the controller stops to Idle, whether or not the batch
  limit is reached as well; else if \<open>sessionProcessedCount\<close> has reached
  \<open>actionsPerBatch\<close> it is paused for the batch, with the batch-pause alarm set to a
  random number of seconds; else it stays active and the action alarm is set to a random
  number of seconds from the interval settings.
\<close>

theorem completed_outcome_transitions:
  assumes "isActive w" and "currentTabId w = Some t"
  shows "processedToday (step e (Agent t ActionCompleted) w) = processedToday w + 1
       \<and> st_processedToday (published (step e (Agent t ActionCompleted) w) ! length (published w))
           = processedToday w + 1
       \<and> st_sessionProcessedCount (published (step e (Agent t ActionCompleted) w) ! length (published w))
           = sessionProcessedCount w + 1
       \<and> (save_ok e \<longrightarrow> stored_state (step e (Agent t ActionCompleted) w)
             = Some \<lparr>rs_processedToday = processedToday w + 1, rs_lastActionTimestamp = now e\<rparr>)
       \<and> (js_ge (Num (of_int (processedToday w + 1))) (to_number (dailyLimit (settings w))) \<longrightarrow>
             \<not> isActive (step e (Agent t ActionCompleted) w)
           \<and> \<not> isPausedForBatch (step e (Agent t ActionCompleted) w)
           \<and> alarms (step e (Agent t ActionCompleted) w) PERFORM_ACTION = None
           \<and> alarms (step e (Agent t ActionCompleted) w) BATCH_PAUSE = None
           \<and> currentTabId (step e (Agent t ActionCompleted) w) = None)
       \<and> (\<not> js_ge (Num (of_int (processedToday w + 1))) (to_number (dailyLimit (settings w)))
            \<and> js_ge (Num (of_int (sessionProcessedCount w + 1)))
                 (to_number (actionsPerBatch (settings w))) \<longrightarrow>
             \<not> isActive (step e (Agent t ActionCompleted) w)
           \<and> isPausedForBatch (step e (Agent t ActionCompleted) w)
           \<and> alarms (step e (Agent t ActionCompleted) w) PERFORM_ACTION = None
           \<and> alarms (step e (Agent t ActionCompleted) w) BATCH_PAUSE
               = Some (DelayInMinutes (js_divide (js_times
                   (getRandomInt (to_number (pauseBetweenBatchesMin (settings w)))
                      (to_number (pauseBetweenBatchesMax (settings w))) (rnd e))
                   (Num 1000)) 60000)))
       \<and> (\<not> js_ge (Num (of_int (processedToday w + 1))) (to_number (dailyLimit (settings w)))
            \<and> \<not> js_ge (Num (of_int (sessionProcessedCount w + 1)))
                 (to_number (actionsPerBatch (settings w))) \<longrightarrow>
             isActive (step e (Agent t ActionCompleted) w)
           \<and> isPausedForBatch (step e (Agent t ActionCompleted) w) = isPausedForBatch w
           \<and> sessionProcessedCount (step e (Agent t ActionCompleted) w)
               = sessionProcessedCount w + 1
           \<and> alarms (step e (Agent t ActionCompleted) w) BATCH_PAUSE = alarms w BATCH_PAUSE
           \<and> alarms (step e (Agent t ActionCompleted) w) PERFORM_ACTION
               = Some (DelayInMinutes (js_divide (js_times
                   (getRandomInt (to_number (intervalMin (settings w)))
                      (to_number (intervalMax (settings w))) (rnd e))
                   (Num 1000)) 60000)))"
proof -
  let ?w4 = "sendStatusToPopup
               (saveState e \<lparr>rs_processedToday = processedToday w + 1, rs_lastActionTimestamp = now e\<rparr>
                  (w\<lparr>sessionProcessedCount := sessionProcessedCount w + 1,
                     processedToday := processedToday w + 1\<rparr>))"
  have act: "isActive ?w4" and tab: "currentTabId ?w4 = Some t" using assms by simp_all
  have pub4: "published ?w4 ! length (published w)
                = getStatus (saveState e \<lparr>rs_processedToday = processedToday w + 1, rs_lastActionTimestamp = now e\<rparr>
                  (w\<lparr>sessionProcessedCount := sessionProcessedCount w + 1,
                     processedToday := processedToday w + 1\<rparr>))"
    by simp
  have pre: "\<exists>xs. published (stopAutomation ?w4) = published ?w4 @ xs"
     "\<exists>xs. published (scheduleBatchPause e ?w4) = published ?w4 @ xs"
     "\<exists>xs. published (scheduleNextAction None e ?w4) = published ?w4 @ xs"
    by (simp_all add: stopAutomation_def scheduleBatchPause_def scheduleNextAction_def Let_def
        split: option.splits)
  have len: "length (published w) < length (published ?w4)" by simp
  have nth: "\<And>xs. (published ?w4 @ xs) ! length (published w) = published ?w4 ! length (published w)"
    using len by (simp only: nth_append if_True)
  have snap: "\<And>f. (\<exists>xs. published f = published ?w4 @ xs) \<Longrightarrow>
     st_processedToday (published f ! length (published w)) = processedToday w + 1
     \<and> st_sessionProcessedCount (published f ! length (published w)) = sessionProcessedCount w + 1"
    using nth pub4 by (auto simp add: getStatus_def)
  have stp: "step e (Agent t ActionCompleted) w =
     (if js_ge (Num (of_int (processedToday w + 1))) (to_number (dailyLimit (settings w)))
      then stopAutomation ?w4
      else if js_ge (Num (of_int (sessionProcessedCount w + 1))) (to_number (actionsPerBatch (settings w)))
      then scheduleBatchPause e ?w4
      else scheduleNextAction None e ?w4)"
    using assms by (simp add: Let_def)
  show ?thesis
    unfolding stp
    using snap [OF pre(1)] snap [OF pre(2)] snap [OF pre(3)] stopAutomation_running [of ?w4] act tab assms
    by (simp add: scheduleNextAction_alarms)
qed

text \<open>
  With the default settings the next action is scheduled in
  \<open>getRandomInt(5, 10)\<close> = 8 seconds for the random number 1/2; with a batch size of
  1 the controller pauses; with a batch size of 1 and a daily limit of 1 it stops.
\<close>

theorem completed_outcome_transitions_witness:
  "isActive example_dispatched \<and> currentTabId example_dispatched = Some 7
   \<and> processedToday (step example_env (Agent 7 ActionCompleted) example_dispatched) = 1
   \<and> isActive (step example_env (Agent 7 ActionCompleted) example_dispatched)
   \<and> alarms (step example_env (Agent 7 ActionCompleted) example_dispatched) PERFORM_ACTION
       = Some (DelayInMinutes (Num (8 * 1000 / 60000)))
   \<and> isPausedForBatch (step example_env (Agent 7 ActionCompleted)
        (example_saved (empty_settings\<lparr>actionsPerBatch := Some (Num 1)\<rparr>)))
   \<and> \<not> isActive (step example_env (Agent 7 ActionCompleted)
        (example_saved (empty_settings\<lparr>actionsPerBatch := Some (Num 1)\<rparr>)))
   \<and> \<not> isPausedForBatch (step example_env (Agent 7 ActionCompleted)
        (example_saved (empty_settings\<lparr>actionsPerBatch := Some (Num 1),
           dailyLimit := Some (Num 1)\<rparr>)))
   \<and> \<not> isActive (step example_env (Agent 7 ActionCompleted)
        (example_saved (empty_settings\<lparr>actionsPerBatch := Some (Num 1),
           dailyLimit := Some (Num 1)\<rparr>)))"
  using completed_outcome_transitions [of example_dispatched 7 example_env]
    completed_outcome_transitions
      [of "example_saved (empty_settings\<lparr>actionsPerBatch := Some (Num 1)\<rparr>)" 7 example_env]
    completed_outcome_transitions
      [of "example_saved (empty_settings\<lparr>actionsPerBatch := Some (Num 1),
             dailyLimit := Some (Num 1)\<rparr>)" 7 example_env]
  by (simp add: example_dispatched_fields example_saved_fields spread_def
      DEFAULT_SETTINGS_def empty_settings_def getRandomInt_def js_minus_def example_env_def)

text \<open>
  C2. A start command that finds the daily limit reached leaves the controller where it
  is. \<open>startAutomation\<close> first loads settings and run state; when the count it has
  loaded is at least the daily limit it has loaded (\<open>processedToday >= settings.dailyLimit\<close>),
  the command does not set \<open>isActive\<close> (an idle controller stays idle), does not
  change \<open>isPausedForBatch\<close> or the tab handle, sends no command to the page agent and
  creates or clears no alarm.
\<close>

theorem start_at_daily_limit_stays_idle:
  assumes "js_ge (Num (of_int (processedToday (loadSettingsAndState e w))))
             (to_number (dailyLimit (settings (loadSettingsAndState e w))))"
  shows "isActive (startAutomation ty e w) = isActive w
       \<and> isPausedForBatch (startAutomation ty e w) = isPausedForBatch w
       \<and> currentTabId (startAutomation ty e w) = currentTabId w
       \<and> to_tab (startAutomation ty e w) = to_tab w
       \<and> alarms (startAutomation ty e w) = alarms w"
  using assms by (simp add: startAutomation_def startAutomation_begin_def Let_def)

text \<open>
  The scenario \<open>dailyLimit = 10\<close>, \<open>processedToday = 10\<close>, last action one second ago,
  at \<open>start(follow)\<close>.
\<close>

theorem start_at_daily_limit_stays_idle_witness:
  "js_ge (Num (of_int (processedToday (loadSettingsAndState example_env
       (boot (\<lambda>a. None) (Some (empty_settings\<lparr>dailyLimit := Some (Num 10)\<rparr>))
          (Some \<lparr>rs_processedToday = 10, rs_lastActionTimestamp = 1699999999000\<rparr>))))))
     (to_number (dailyLimit (settings (loadSettingsAndState example_env
       (boot (\<lambda>a. None) (Some (empty_settings\<lparr>dailyLimit := Some (Num 10)\<rparr>))
          (Some \<lparr>rs_processedToday = 10, rs_lastActionTimestamp = 1699999999000\<rparr>))))))
   \<and> \<not> isActive (startAutomation Follow example_env
       (boot (\<lambda>a. None) (Some (empty_settings\<lparr>dailyLimit := Some (Num 10)\<rparr>))
          (Some \<lparr>rs_processedToday = 10, rs_lastActionTimestamp = 1699999999000\<rparr>)))
   \<and> to_tab (startAutomation Follow example_env
       (boot (\<lambda>a. None) (Some (empty_settings\<lparr>dailyLimit := Some (Num 10)\<rparr>))
          (Some \<lparr>rs_processedToday = 10, rs_lastActionTimestamp = 1699999999000\<rparr>))) = []
   \<and> alarms (startAutomation Follow example_env
       (boot (\<lambda>a. None) (Some (empty_settings\<lparr>dailyLimit := Some (Num 10)\<rparr>))
          (Some \<lparr>rs_processedToday = 10, rs_lastActionTimestamp = 1699999999000\<rparr>)))
       = (\<lambda>a. None)"
proof -
  let ?w = "boot (\<lambda>a. None) (Some (empty_settings\<lparr>dailyLimit := Some (Num 10)\<rparr>))
              (Some \<lparr>rs_processedToday = 10, rs_lastActionTimestamp = 1699999999000\<rparr>)"
  have h: "js_ge (Num (of_int (processedToday (loadSettingsAndState example_env ?w))))
             (to_number (dailyLimit (settings (loadSettingsAndState example_env ?w))))"
    by (simp add: loadSettingsAndState_def Let_def boot_def example_env_def spread_def
        DEFAULT_SETTINGS_def empty_settings_def)
  show ?thesis
    using h start_at_daily_limit_stays_idle [OF h, of Follow]
    by (simp add: boot_def)
qed

text \<open>
  C3. A blocked outcome of the page agent of the current tab, arriving while a run is
  active (running or paused for a batch), brings the controller to Idle within that
  callback, whatever the counters are: both flags are false, the action alarm and the
  batch-pause alarm are cleared (so no batch pause is scheduled), the tab handle and the
  session count are reset, and the last status published reads Idle.
\<close>

theorem blocked_outcome_stops:
  assumes "isActive w \<or> isPausedForBatch w" and "currentTabId w = Some t"
  shows "\<not> isActive (step e (Agent t ActionBlocked) w)
       \<and> \<not> isPausedForBatch (step e (Agent t ActionBlocked) w)
       \<and> alarms (step e (Agent t ActionBlocked) w) PERFORM_ACTION = None
       \<and> alarms (step e (Agent t ActionBlocked) w) BATCH_PAUSE = None
       \<and> currentTabId (step e (Agent t ActionBlocked) w) = None
       \<and> sessionProcessedCount (step e (Agent t ActionBlocked) w) = 0
       \<and> st_statusText (last (published (step e (Agent t ActionBlocked) w))) = Idle"
  using assms stopAutomation_running [of w]
  by (simp add: getStatus_def)

theorem blocked_outcome_stops_witness:
  "(isActive example_dispatched \<or> isPausedForBatch example_dispatched)
   \<and> currentTabId example_dispatched = Some 7
   \<and> \<not> isActive (step example_env (Agent 7 ActionBlocked) example_dispatched)
   \<and> \<not> isPausedForBatch (step example_env (Agent 7 ActionBlocked) example_dispatched)
   \<and> alarms (step example_env (Agent 7 ActionBlocked) example_dispatched) BATCH_PAUSE = None"
  using blocked_outcome_stops [of example_dispatched 7 example_env]
  by (simp add: example_dispatched_fields)

text \<open>
  C4, as the code has it. \<open>getRandomInt\<close> does not clamp or guard its range. For
  numeric bounds of magnitude at most \<open>2^53\<close> and a random number in [0, 1) it returns
  an integer, so neither NaN nor an infinity, between the lesser of \<open>ceil(min)\<close> and
  \<open>floor(max) + 1\<close> and the greater of \<open>ceil(min)\<close> and \<open>floor(max)\<close>; the delay is
  therefore non-negative whenever both bounds are non-negative, inverted or not.
\<close>

theorem getRandomInt_range:
  assumes "0 \<le> r" "r < 1" and "\<bar>a\<bar> \<le> 2 ^ 53" "\<bar>b\<bar> \<le> 2 ^ 53"
  shows "\<exists>k. getRandomInt (Num a) (Num b) r = Num (of_int k)
           \<and> min \<lceil>a\<rceil> (\<lfloor>b\<rfloor> + 1) \<le> k \<and> k \<le> max \<lceil>a\<rceil> \<lfloor>b\<rfloor>
           \<and> (0 \<le> a \<and> 0 \<le> b \<longrightarrow> 0 \<le> k)"
proof -
  define d where "d = \<lfloor>b\<rfloor> - \<lceil>a\<rceil> + 1"
  define k where "k = \<lfloor>r * of_int d\<rfloor> + \<lceil>a\<rceil>"
  have eq: "getRandomInt (Num a) (Num b) r = Num (of_int k)"
    using getRandomInt_Num [OF assms(3,4,1,2)] by (simp add: k_def d_def)
  have lo: "min 0 d \<le> \<lfloor>r * of_int d\<rfloor>" and hi: "\<lfloor>r * of_int d\<rfloor> \<le> max 0 (d - 1)"
    using scaled_floor_bounds [OF assms(1,2)] by blast+
  have l: "min \<lceil>a\<rceil> (\<lfloor>b\<rfloor> + 1) \<le> k"
    using lo by (simp add: k_def d_def min_def split: if_splits)
  have h: "k \<le> max \<lceil>a\<rceil> \<lfloor>b\<rfloor>"
    using hi by (simp add: k_def d_def max_def split: if_splits)
  have "0 \<le> k" if "0 \<le> a" "0 \<le> b"
  proof -
    have "0 \<le> \<lceil>a\<rceil>" "0 \<le> \<lfloor>b\<rfloor>" using that by simp_all
    then show ?thesis using l by linarith
  qed
  then show ?thesis using eq l h by auto
qed

text \<open>Bounds 5 and 10, the inverted bounds 10 and 5, and the equal bounds 5 and 5.\<close>

theorem getRandomInt_range_witness:
  "(0::real) \<le> 1 / 2 \<and> (1::real) / 2 < 1 \<and> \<bar>5::real\<bar> \<le> 2 ^ 53 \<and> \<bar>10::real\<bar> \<le> 2 ^ 53
   \<and> getRandomInt (Num 5) (Num 10) (1 / 2) = Num 8
   \<and> getRandomInt (Num 10) (Num 5) (1 / 2) = Num 8
   \<and> getRandomInt (Num 5) (Num 5) (1 / 2) = Num 5"
  using getRandomInt_range [of "1 / 2" 5 10] getRandomInt_range [of "1 / 2" 10 5]
    getRandomInt_range [of "1 / 2" 5 5]
  by (simp add: getRandomInt_def js_minus_def)

text \<open>
  C4 as stated fails. With pause bounds of -600 and -300 seconds (the popup's own
  validation lets -10 and -5 minutes through) the batch pause is requested with a delay
  of -7.5 minutes; with an interval bound that is not a number the action alarm is
  requested with the delay NaN; and with the finite bounds \<open>-(2^1023)\<close> and \<open>2^1023\<close>
  the range overflows, so that the result is NaN for the random number 0 and infinite
  for the random number 1/2.
\<close>

theorem getRandomInt_unguarded:
  "alarms (scheduleBatchPause example_env
      (example_saved (empty_settings\<lparr>pauseBetweenBatchesMin := Some (Num (- 600)),
         pauseBetweenBatchesMax := Some (Num (- 300))\<rparr>))) BATCH_PAUSE
     = Some (DelayInMinutes (Num (- 15 / 2)))
   \<and> js_negative (Num (- 15 / 2))
   \<and> alarms (scheduleNextAction None example_env
      (example_saved (empty_settings\<lparr>intervalMin := Some NaN\<rparr>))) PERFORM_ACTION
     = Some (DelayInMinutes NaN)
   \<and> getRandomInt (Num (- (2 ^ 1023))) (Num (2 ^ 1023)) 0 = NaN
   \<and> getRandomInt (Num (- (2 ^ 1023))) (Num (2 ^ 1023)) (1 / 2) = PosInf"
proof -
  have "alarms (scheduleBatchPause example_env
      (example_saved (empty_settings\<lparr>pauseBetweenBatchesMin := Some (Num (- 600)),
         pauseBetweenBatchesMax := Some (Num (- 300))\<rparr>))) BATCH_PAUSE
     = Some (DelayInMinutes (Num (- 15 / 2)))"
    by (simp add: example_saved_fields spread_def DEFAULT_SETTINGS_def empty_settings_def
        getRandomInt_def js_minus_def example_env_def)
  moreover have "alarms (scheduleNextAction None example_env
      (example_saved (empty_settings\<lparr>intervalMin := Some NaN\<rparr>))) PERFORM_ACTION
     = Some (DelayInMinutes NaN)"
    by (simp add: example_saved_fields scheduleNextAction_alarms spread_def
        DEFAULT_SETTINGS_def empty_settings_def getRandomInt_def js_minus_def example_env_def)
  ultimately show ?thesis using getRandomInt_overflow by simp
qed

text \<open>
  C5, as the code has it. While the controller is running, a failed outcome of the
  current tab whose kind is not critical (not \<open>domParsingError\<close>, not \<open>clickError\<close>)
  keeps it running and sets the action alarm to a random number of seconds from the
  interval settings. An \<open>error\<close> message whose kind is not critical keeps it running
  too and publishes the status, one snapshot of the state as it is, but creates no
  alarm: alarms and messages to the page agent are unchanged.
\<close>

theorem noncritical_outcomes:
  assumes "isActive w" and "currentTabId w = Some t"
  shows "(\<not> critical_failed ty \<longrightarrow>
            isActive (step e (Agent t (ActionFailed ty)) w)
          \<and> alarms (step e (Agent t (ActionFailed ty)) w) PERFORM_ACTION
              = Some (DelayInMinutes (js_divide (js_times
                   (getRandomInt (to_number (intervalMin (settings w)))
                      (to_number (intervalMax (settings w))) (rnd e))
                   (Num 1000)) 60000)))
       \<and> (\<not> critical_error ty \<longrightarrow>
            isActive (step e (Agent t (ErrorStatus ty)) w)
          \<and> alarms (step e (Agent t (ErrorStatus ty)) w) = alarms w
          \<and> to_tab (step e (Agent t (ErrorStatus ty)) w) = to_tab w
          \<and> published (step e (Agent t (ErrorStatus ty)) w) = published w @ [getStatus w]
          \<and> st_isActive (last (published (step e (Agent t (ErrorStatus ty)) w))))"
  using assms by (simp add: scheduleNextAction_alarms getStatus_def)

theorem noncritical_outcomes_witness:
  "isActive example_dispatched \<and> currentTabId example_dispatched = Some 7
   \<and> \<not> critical_failed (Some ''timeout'') \<and> \<not> critical_error (Some ''timeout'')
   \<and> alarms (step example_env (Agent 7 (ActionFailed (Some ''timeout''))) example_dispatched)
        PERFORM_ACTION = Some (DelayInMinutes (Num (8 * 1000 / 60000)))
   \<and> alarms (step example_env (Agent 7 (ErrorStatus (Some ''timeout''))) example_dispatched)
       = alarms example_dispatched
   \<and> published (step example_env (Agent 7 (ErrorStatus (Some ''timeout''))) example_dispatched)
       = published example_dispatched @ [getStatus example_dispatched]"
  using noncritical_outcomes [of example_dispatched 7 "Some ''timeout''" example_env]
  by (simp add: example_dispatched_fields critical_failed_def critical_error_def
      DEFAULT_SETTINGS_def getRandomInt_def js_minus_def example_env_def)

text \<open>
  C5 as stated fails for the \<open>error\<close> message: the controller is running, an action
  is in flight and no action alarm is pending; after an \<open>error\<close> of the non-critical
  kind \<open>timeout\<close> it is still running and still no action alarm is pending.
\<close>

theorem noncritical_error_no_timer:
  "isActive example_dispatched
   \<and> currentTabId example_dispatched = Some 7
   \<and> \<not> critical_error (Some ''timeout'')
   \<and> isActive (step example_env (Agent 7 (ErrorStatus (Some ''timeout''))) example_dispatched)
   \<and> alarms (step example_env (Agent 7 (ErrorStatus (Some ''timeout''))) example_dispatched)
        PERFORM_ACTION = None"
  by (simp add: example_dispatched_fields critical_error_def)

text \<open>
  C6. A load of the persisted run state that succeeds keeps the stored
  \<open>processedToday\<close> when \<open>lastActionTimestamp\<close> is at most 24 hours before the
  current time and sets it to 0 when it is more than 24 hours before. The reset is lazy:
  the load changes the variable only and leaves the stored object as it is.
\<close>

theorem load_processedToday:
  assumes "load_ok e" and "stored_state w = Some rs"
  shows "(now e - rs_lastActionTimestamp rs \<le> 24 * 60 * 60 * 1000 \<longrightarrow>
            processedToday (loadSettingsAndState e w) = rs_processedToday rs)
       \<and> (now e - rs_lastActionTimestamp rs > 24 * 60 * 60 * 1000 \<longrightarrow>
            processedToday (loadSettingsAndState e w) = 0)
       \<and> stored_state (loadSettingsAndState e w) = stored_state w"
  using assms by (auto simp add: loadSettingsAndState_def Let_def)

text \<open>A count of 7 stored one hour ago is kept; stored 25 hours ago it is reset.\<close>

theorem load_processedToday_witness:
  "load_ok example_env
   \<and> processedToday (loadSettingsAndState example_env
        (boot (\<lambda>a. None) None
           (Some \<lparr>rs_processedToday = 7, rs_lastActionTimestamp = 1699996400000\<rparr>))) = 7
   \<and> processedToday (loadSettingsAndState example_env
        (boot (\<lambda>a. None) None
           (Some \<lparr>rs_processedToday = 7, rs_lastActionTimestamp = 1699910000000\<rparr>))) = 0"
  using load_processedToday [of example_env
      "boot (\<lambda>a. None) None
         (Some \<lparr>rs_processedToday = 7, rs_lastActionTimestamp = 1699996400000\<rparr>)"
      "\<lparr>rs_processedToday = 7, rs_lastActionTimestamp = 1699996400000\<rparr>"]
    load_processedToday [of example_env
      "boot (\<lambda>a. None) None
         (Some \<lparr>rs_processedToday = 7, rs_lastActionTimestamp = 1699910000000\<rparr>)"
      "\<lparr>rs_processedToday = 7, rs_lastActionTimestamp = 1699910000000\<rparr>"]
  by (simp add: example_env_def boot_def)

text \<open>
  C7. A skip outcome increments neither \<open>processedToday\<close> nor
  \<open>sessionProcessedCount\<close>, in any state. When it comes from the current tab while the
  controller is running, the action alarm is set again with the constant delay of 100 ms
  (requested as 100 / 60000 minutes), whatever the interval settings and the random
  number are.
\<close>

theorem skip_outcome_frame:
  "processedToday (step e (Agent t UserSkipped) w) = processedToday w
   \<and> sessionProcessedCount (step e (Agent t UserSkipped) w) = sessionProcessedCount w
   \<and> (isActive w \<and> currentTabId w = Some t \<longrightarrow>
        isActive (step e (Agent t UserSkipped) w)
      \<and> alarms (step e (Agent t UserSkipped) w) PERFORM_ACTION
          = Some (DelayInMinutes (Num (100 / 60000))))"
  by (simp add: scheduleNextAction_alarms)

theorem skip_outcome_frame_witness:
  "isActive example_dispatched \<and> currentTabId example_dispatched = Some 7
   \<and> processedToday (step example_env (Agent 7 UserSkipped) example_dispatched) = 0
   \<and> sessionProcessedCount (step example_env (Agent 7 UserSkipped) example_dispatched) = 0
   \<and> alarms (step example_env (Agent 7 UserSkipped) example_dispatched) PERFORM_ACTION
       = Some (DelayInMinutes (Num (100 / 60000)))"
  using skip_outcome_frame [of example_env 7 example_dispatched]
  by (simp add: example_dispatched_fields)

text \<open>
  C8. \<open>stopAutomation\<close> is idempotent. Called while the controller is idle (neither
  active nor paused for a batch) it returns at its guard: the whole state, with the
  alarms, the messages sent to the page agent and the status updates, is unchanged.
  After any call the controller is idle, so a second call changes nothing.
\<close>

theorem stopAutomation_idempotent:
  "(\<not> isActive w \<and> \<not> isPausedForBatch w \<longrightarrow> stopAutomation w = w)
   \<and> stopAutomation (stopAutomation w) = stopAutomation w"
  by (simp add: stopAutomation_idle)

theorem stopAutomation_idempotent_witness:
  "\<not> isActive example_idle \<and> \<not> isPausedForBatch example_idle
   \<and> stopAutomation example_idle = example_idle
   \<and> isActive example_running
   \<and> stopAutomation (stopAutomation example_running) = stopAutomation example_running"
  using stopAutomation_idempotent [of example_idle]
    stopAutomation_idempotent [of example_running]
  by (simp add: example_idle_fields example_running_fields)

text \<open>
  C9, as the code has it. What one callback leaves in the stored run state is exactly
  this. When the save resolves, a success outcome of the current tab writes the
  incremented count with the current time, and the daily-reset alarm writes the count 0
  with the current time. When the save resolves and the load has failed, a start command
  received while not active, and an action alarm that fires while active, write the count
  0 with the timestamp 0. In every other case the stored run state is unchanged. The
  start of the worker writes the count 0 with the timestamp 0 when its load fails and the
  save resolves, and nothing otherwise.
\<close>

theorem lastActionTimestamp_writers:
  "stored_state (step e ev w) =
     (if save_ok e \<and> (\<exists>t. ev = Agent t ActionCompleted \<and> currentTabId w = Some t)
      then Some \<lparr>rs_processedToday = processedToday w + 1, rs_lastActionTimestamp = now e\<rparr>
      else if save_ok e \<and> ev = Alarm DAILY_RESET
      then Some \<lparr>rs_processedToday = 0, rs_lastActionTimestamp = now e\<rparr>
      else if save_ok e \<and> \<not> load_ok e
              \<and> (((\<exists>ty. ev = PopupStart ty) \<and> \<not> isActive w)
                   \<or> (ev = Alarm PERFORM_ACTION \<and> isActive w))
      then Some \<lparr>rs_processedToday = 0, rs_lastActionTimestamp = 0\<rparr>
      else stored_state w)
   \<and> stored_state (startup e al ss rs) =
       (if save_ok e \<and> \<not> load_ok e
        then Some \<lparr>rs_processedToday = 0, rs_lastActionTimestamp = 0\<rparr>
        else rs)"
proof
  show "stored_state (step e ev w) =
     (if save_ok e \<and> (\<exists>t. ev = Agent t ActionCompleted \<and> currentTabId w = Some t)
      then Some \<lparr>rs_processedToday = processedToday w + 1, rs_lastActionTimestamp = now e\<rparr>
      else if save_ok e \<and> ev = Alarm DAILY_RESET
      then Some \<lparr>rs_processedToday = 0, rs_lastActionTimestamp = now e\<rparr>
      else if save_ok e \<and> \<not> load_ok e
              \<and> (((\<exists>ty. ev = PopupStart ty) \<and> \<not> isActive w)
                   \<or> (ev = Alarm PERFORM_ACTION \<and> isActive w))
      then Some \<lparr>rs_processedToday = 0, rs_lastActionTimestamp = 0\<rparr>
      else stored_state w)"
  proof (cases ev)
    case (PopupStart ty)
    then show ?thesis
      by (simp add: startAutomation_stored loadSettingsAndState_stored)
  next
    case (Agent t st)
    then show ?thesis
      by (auto simp add: onAgentStatus_stored simp del: onAgentStatus.simps)
  next
    case (Alarm a)
    then show ?thesis
      by (cases a) (auto simp add: Let_def scheduleDailyReset_def executeNextAction_stored
          loadSettingsAndState_stored split: option.splits)
  qed simp_all
  show "stored_state (startup e al ss rs) =
       (if save_ok e \<and> \<not> load_ok e
        then Some \<lparr>rs_processedToday = 0, rs_lastActionTimestamp = 0\<rparr>
        else rs)"
    by (simp add: startup_def loadSettingsAndState_stored scheduleDailyReset_def boot_def)
qed

theorem lastActionTimestamp_writers_witness:
  "save_ok example_env \<and> currentTabId example_dispatched = Some 7
   \<and> stored_state example_dispatched = None
   \<and> stored_state (step example_env (Agent 7 ActionCompleted) example_dispatched)
       = Some \<lparr>rs_processedToday = 1, rs_lastActionTimestamp = 1700000000000\<rparr>
   \<and> stored_state (step example_env (Alarm DAILY_RESET) example_dispatched)
       = Some \<lparr>rs_processedToday = 0, rs_lastActionTimestamp = 1700000000000\<rparr>
   \<and> stored_state (step example_env (Agent 7 UserSkipped) example_dispatched) = None"
  using lastActionTimestamp_writers
      [of example_env "Agent 7 ActionCompleted" example_dispatched "\<lambda>a. None" None None]
    lastActionTimestamp_writers
      [of example_env "Alarm DAILY_RESET" example_dispatched "\<lambda>a. None" None None]
    lastActionTimestamp_writers
      [of example_env "Agent 7 UserSkipped" example_dispatched "\<lambda>a. None" None None]
  by (simp add: example_dispatched_fields example_env_def)

text \<open>
  C9 as stated fails: with a count of 3 stored by an action at time 1699999000000, the
  daily-reset alarm at time 1700000000000 overwrites the timestamp with the current time
  although no action has succeeded since.
\<close>

theorem daily_reset_writes_timestamp:
  "stored_state (startup example_env (\<lambda>a. None) None
       (Some \<lparr>rs_processedToday = 3, rs_lastActionTimestamp = 1699999000000\<rparr>))
     = Some \<lparr>rs_processedToday = 3, rs_lastActionTimestamp = 1699999000000\<rparr>
   \<and> stored_state (step example_env (Alarm DAILY_RESET)
       (startup example_env (\<lambda>a. None) None
          (Some \<lparr>rs_processedToday = 3, rs_lastActionTimestamp = 1699999000000\<rparr>)))
     = Some \<lparr>rs_processedToday = 0, rs_lastActionTimestamp = 1700000000000\<rparr>"
  by (simp add: startup_def loadSettingsAndState_stored scheduleDailyReset_def boot_def
      example_env_def)

text \<open>
  C10. \<open>scheduleBatchPause\<close> sets \<open>isActive\<close> to false while pausing, and
  \<open>getStatus\<close> reads Idle then. \<open>startAutomation\<close> breaks this: it clears
  \<open>isPausedForBatch\<close>, waits for the tab query and the script injection, and sets
  \<open>isActive\<close> without looking at \<open>isPausedForBatch\<close> again. At this input: the
  batch size is 1, a run on tab 7 is stopped while an action is in flight and started
  again at once; the start command is suspended at its wait for \<open>injectContentScript\<close>
  with neither flag set; the success outcome of the action in flight arrives and enters
  the batch pause; the rest of \<open>startAutomation\<close> sets \<open>isActive\<close>. Afterwards both
  flags are true, the action alarm and the batch-pause alarm are both pending, and the
  status published reads "Paused for batch break (0/1)".
\<close>

theorem paused_text_after_interleaved_start:
  "\<not> isActive example_batch1_idle \<and> currentTabId example_batch1_idle = None
   \<and> startAutomation_begin Follow example_env (respond Acknowledged example_batch1_idle)
       = Inr example_suspended
   \<and> \<not> isActive example_suspended \<and> \<not> isPausedForBatch example_suspended
   \<and> currentTabId example_suspended = Some 7
   \<and> isPausedForBatch (step example_env (Agent 7 ActionCompleted) example_suspended)
   \<and> isActive example_raced \<and> isPausedForBatch example_raced
   \<and> st_statusText (last (published example_raced)) = PausedForBatchBreak 0 (Num 1)
   \<and> alarms example_raced PERFORM_ACTION = Some (DelayInMinutes (Num (1000 / 60000)))
   \<and> alarms example_raced BATCH_PAUSE \<noteq> None"
proof -
  have idle: "isActive example_batch1_idle = False"
    "currentTabId example_batch1_idle = None"
    "stored_settings example_batch1_idle
       = Some (spread DEFAULT_SETTINGS (empty_settings\<lparr>actionsPerBatch := Some (Num 1)\<rparr>))"
    "stored_state example_batch1_idle = None"
    by (simp_all add: example_batch1_idle_def example_saved_def example_dispatched_fields
        saveSettings_def stopAutomation_def Let_def example_env_def split: option.splits)
  have b: "startAutomation_begin Follow example_env (respond Acknowledged example_batch1_idle)
             = Inr example_suspended"
    by (simp add: example_suspended_def startAutomation_begin_def idle Let_def
        loadSettingsAndState_def spread_def DEFAULT_SETTINGS_def empty_settings_def
        example_env_def)
  have s: "isActive example_suspended = False" "isPausedForBatch example_suspended = False"
    "currentTabId example_suspended = Some 7"
    "processedToday example_suspended = 0" "sessionProcessedCount example_suspended = 0"
    "settings example_suspended
       = spread DEFAULT_SETTINGS (empty_settings\<lparr>actionsPerBatch := Some (Num 1)\<rparr>)"
    by (simp_all add: example_suspended_def startAutomation_begin_def idle Let_def
        loadSettingsAndState_def spread_def DEFAULT_SETTINGS_def empty_settings_def
        example_env_def)
  define w where "w = step example_env (Agent 7 ActionCompleted) example_suspended"
  have p: "isPausedForBatch w = True" "isActive w = False" "currentTabId w = Some 7"
    "sessionProcessedCount w = 0"
    "settings w = spread DEFAULT_SETTINGS (empty_settings\<lparr>actionsPerBatch := Some (Num 1)\<rparr>)"
    by (simp_all add: w_def s Let_def spread_def DEFAULT_SETTINGS_def empty_settings_def)
  have raced: "example_raced = startAutomation_resume example_env w"
    by (simp only: example_raced_def w_def)
  have r: "isActive example_raced" "isPausedForBatch example_raced"
    "st_statusText (last (published example_raced)) = PausedForBatchBreak 0 (Num 1)"
    by (simp_all add: raced startAutomation_resume_def p Let_def example_env_def
        scheduleNextAction_def getStatus_def spread_def DEFAULT_SETTINGS_def
        empty_settings_def)
  have pa: "alarms w BATCH_PAUSE \<noteq> None"
    by (simp add: w_def s Let_def spread_def DEFAULT_SETTINGS_def empty_settings_def)
  have al: "alarms example_raced PERFORM_ACTION = Some (DelayInMinutes (Num (1000 / 60000)))"
    "alarms example_raced BATCH_PAUSE \<noteq> None"
    using pa by (simp_all add: raced startAutomation_resume_def p Let_def example_env_def
        scheduleNextAction_alarms)
  have pw: "isPausedForBatch (step example_env (Agent 7 ActionCompleted) example_suspended)"
    using p(1) by (simp only: w_def)
  from idle(1,2) b s(1,2,3) pw r al show ?thesis by blast
qed

end
